theory Spec2Isabelle
  imports Main "HOL-Library.AList"
begin

section \<open>Python values used by the two servers\<close>

text \<open>
  A request path and a header value reach the handlers as Python \<open>str\<close> objects decoded
  from ISO-8859-1, so every character is one byte: they are modelled as \<open>string\<close>.
  Request and response bodies on the wire are \<open>bytes\<close>, modelled as \<open>string\<close> too.
  A \<open>str\<close> obtained by decoding UTF-8 or from \<open>json.loads\<close> may hold any code point and
  is modelled as the list of its code points.
\<close>

type_synonym ustr = "nat list"

definition str_of :: "string \<Rightarrow> ustr" where
  "str_of s = map of_char s"

text \<open>\<open>s.startswith(p)\<close>\<close>

fun startswith :: "'a list \<Rightarrow> 'a list \<Rightarrow> bool" where
  "startswith s [] = True"
| "startswith [] (p # ps) = False"
| "startswith (c # cs) (p # ps) = (c = p \<and> startswith cs ps)"

text \<open>\<open>needle in hay\<close> on \<open>str\<close> and \<open>bytes\<close>\<close>

fun py_contains :: "'a list \<Rightarrow> 'a list \<Rightarrow> bool" where
  "py_contains needle [] = (needle = [])"
| "py_contains needle (c # cs) = (startswith (c # cs) needle \<or> py_contains needle cs)"

text \<open>
  \<open>s.split(sep)\<close> for a separator of one character: the scan keeps the segment read so
  far and closes it at each separator and at the end, so the result is never empty.
\<close>

fun split_from :: "'a \<Rightarrow> 'a list \<Rightarrow> 'a list \<Rightarrow> 'a list list" where
  "split_from sep cur [] = [cur]"
| "split_from sep cur (c # cs) =
     (if c = sep then cur # split_from sep [] cs else split_from sep (cur @ [c]) cs)"

definition py_split :: "'a \<Rightarrow> 'a list \<Rightarrow> 'a list list" where
  "py_split sep s = split_from sep [] s"

text \<open>
  \<open>int(s)\<close> on a \<open>str\<close> of ISO-8859-1 characters, base 10: surrounding whitespace is
  stripped, one sign is allowed, then come decimal digits, with single underscores allowed
  between digits. \<open>None\<close> is \<open>ValueError\<close>. CPython also raises \<open>ValueError\<close> when there
  are more than 4300 digits (its default limit).
\<close>

definition py_isspace :: "char \<Rightarrow> bool" where
  "py_isspace c = ((of_char c :: nat) \<in> {9, 10, 11, 12, 13, 32, 133, 160})"

definition py_isdigit :: "char \<Rightarrow> bool" where
  "py_isdigit c = (48 \<le> (of_char c :: nat) \<and> (of_char c :: nat) \<le> 57)"

definition py_strip :: "string \<Rightarrow> string" where
  "py_strip s = rev (dropWhile py_isspace (rev (dropWhile py_isspace s)))"

fun digits_ok :: "string \<Rightarrow> bool" where
  "digits_ok [] = False"
| "digits_ok [c] = py_isdigit c"
| "digits_ok (c # d # r) =
     (py_isdigit c \<and> (if d = CHR ''_'' then digits_ok r else digits_ok (d # r)))"

definition digits_value :: "string \<Rightarrow> nat" where
  "digits_value ds = foldl (\<lambda>acc c. 10 * acc + (of_char c - 48)) 0 (filter py_isdigit ds)"

definition py_int :: "string \<Rightarrow> int option" where
  "py_int s =
     (let t = py_strip s;
          (neg, r) = (case t of
                        [] \<Rightarrow> (False, t)
                      | c # r \<Rightarrow> if c = CHR ''+'' then (False, r)
                                 else if c = CHR ''-'' then (True, r)
                                 else (False, t))
      in if digits_ok r \<and> length (filter py_isdigit r) \<le> 4300
         then Some (if neg then - int (digits_value r) else int (digits_value r))
         else None)"

text \<open>
  The values \<open>json.dumps\<close> writes and \<open>json.loads\<close> returns. A \<open>dict\<close> keeps the order
  in which its keys were inserted, so it is an association list. A \<open>float\<close> is kept as
  its \<open>repr\<close>; no handler computes with one.
\<close>

datatype json =
    JNull
  | JBool bool
  | JInt int
  | JFloat ustr
  | JStr ustr
  | JArr "json list"
  | JObj "(ustr \<times> json) list"

definition jstr :: "string \<Rightarrow> json" where
  "jstr s = JStr (str_of s)"

definition jobj :: "(string \<times> json) list \<Rightarrow> json" where
  "jobj kvs = JObj (map (\<lambda>(k, v). (str_of k, v)) kvs)"

text \<open>\<open>d.get(key, default)\<close>; \<open>None\<close> when \<open>d\<close> is not a \<open>dict\<close> (\<open>AttributeError\<close>).\<close>

fun dict_get :: "json \<Rightarrow> ustr \<Rightarrow> json \<Rightarrow> json option" where
  "dict_get (JObj kvs) key dflt = Some (case map_of kvs key of None \<Rightarrow> dflt | Some v \<Rightarrow> v)"
| "dict_get _ key dflt = None"

text \<open>The field of a JSON object, if the value is an object that has it.\<close>

fun json_field :: "json \<Rightarrow> string \<Rightarrow> json option" where
  "json_field (JObj kvs) key = map_of kvs (str_of key)"
| "json_field _ key = None"

section \<open>Responses\<close>

text \<open>
  What a handler sends: the status of \<open>send_response\<close>, the headers of its own
  \<open>send_header\<close> calls, and the value whose \<open>json.dumps\<close> it writes to \<open>wfile\<close>
  (\<open>None\<close> when it writes nothing).
\<close>

record response =
  status :: int
  headers :: "(string \<times> string) list"
  body :: "json option"

definition json_response :: "int \<Rightarrow> json \<Rightarrow> response" where
  "json_response code v =
     \<lparr>status = code, headers = [(''Content-type'', ''application/json'')], body = Some v\<rparr>"

definition not_found :: response where
  "not_found = json_response 404 (jobj [(''error'', jstr ''not found'')])"

section \<open>The mock API server: \<open>mock-hydra-server.py\<close>\<close>

text \<open>The module-level dict \<open>projects_storage\<close>, keyed by project name.\<close>

type_synonym store = "(string \<times> json) list"

definition project_record :: "string \<Rightarrow> json \<Rightarrow> json \<Rightarrow> json" where
  "project_record project_name displayname enabled =
     JObj [(str_of ''name'', jstr project_name),
           (str_of ''displayname'', displayname),
           (str_of ''enabled'', enabled)]"

definition projects_storage :: store where
  "projects_storage =
     [(''nixpkgs'', project_record ''nixpkgs'' (jstr ''Nixpkgs'') (JBool True)),
      (''hydra'', project_record ''hydra'' (jstr ''Hydra'') (JBool True))]"

definition jobset_record :: json where
  "jobset_record =
     jobj [(''name'', jstr ''trunk''), (''project'', jstr ''nixpkgs''), (''enabled'', JInt 1)]"

definition build_record :: "int \<Rightarrow> string \<Rightarrow> json \<Rightarrow> json \<Rightarrow> json" where
  "build_record build_id nixname finished buildstatus =
     jobj [(''id'', JInt build_id), (''nixname'', jstr nixname), (''finished'', finished),
           (''buildstatus'', buildstatus), (''job'', jstr ''hello''),
           (''project'', jstr ''nixpkgs''), (''jobset'', jstr ''trunk'')]"

definition constituents :: json where
  "constituents =
     JArr [jobj [(''id'', JInt 123457), (''nixname'', jstr ''dependency-1'')],
           jobj [(''id'', JInt 123458), (''nixname'', jstr ''dependency-2'')]]"

definition invalid_build_id :: response where
  "invalid_build_id = json_response 400 (jobj [(''error'', jstr ''invalid build id'')])"

definition search_results :: json where
  "search_results =
     jobj [(''builds'',
              JArr [jobj [(''id'', JInt 123456), (''nixname'', jstr ''hello-2.12.1''),
                          (''job'', jstr ''hello''), (''project'', jstr ''nixpkgs''),
                          (''jobset'', jstr ''trunk'')]]),
           (''projects'',
              JArr [project_record ''nixpkgs'' (jstr ''Nixpkgs'') (JBool True)])]"

text \<open>
  \<open>MockHydraHandler.do_GET\<close>: the chain of \<open>if\<close>/\<open>elif\<close> on \<open>self.path\<close>, in the order
  of the source. It reads \<open>projects_storage\<close> and never assigns to it.
\<close>

definition do_GET_response :: "store \<Rightarrow> string \<Rightarrow> response" where
  "do_GET_response storage path =
     (if path = ''/'' \<and> \<not> py_contains ''api'' path then
        json_response 200 (JArr (map snd storage))
      else if startswith path ''/api/v1/projects'' then
        json_response 200 (JArr (map snd storage))
      else if startswith path ''/project/'' then
        (let project_name = last (py_split CHR ''/'' path) in
         case map_of storage project_name of
           Some project \<Rightarrow> json_response 200 project
         | None \<Rightarrow>
             if project_name = ''definitely-does-not-exist'' then not_found else not_found)
      else if startswith path ''/api/jobsets'' then
        json_response 200 (JArr [jobset_record])
      else if startswith path ''/jobset/'' then
        (let parts = py_split CHR ''/'' path in
         if length parts \<ge> 4 \<and> parts ! 2 = ''nixpkgs'' \<and> parts ! 3 = ''trunk''
         then json_response 200 jobset_record
         else not_found)
      else if startswith path ''/build/'' then
        (let build_id = last (py_split CHR ''/'' path) in
         case py_int build_id of
           None \<Rightarrow> invalid_build_id
         | Some build_id_int \<Rightarrow>
             if build_id_int = 123456 then
               json_response 200 (build_record 123456 ''hello-2.12.1'' (JBool True) (JInt 0))
             else if build_id_int = 123459 then
               json_response 200 (build_record 123459 ''hello-in-progress'' (JBool False) JNull)
             else if build_id_int = 123460 then
               json_response 200 (build_record 123460 ''hello-failed'' (JBool True) (JInt 1))
             else not_found)
      else if py_contains ''/constituents'' path then
        (let path_parts = py_split CHR ''/'' path in
         if length path_parts \<ge> 3 \<and> path_parts ! 1 = ''build'' then
           (let build_id = path_parts ! 2 in
            case py_int build_id of
              None \<Rightarrow> invalid_build_id
            | Some build_id_int \<Rightarrow>
                if build_id_int \<in> set [123456, 123459, 123460]
                then json_response 200 constituents
                else not_found)
         else not_found)
      else if startswith path ''/api/search'' \<or> startswith path ''/search'' then
        json_response 200 search_results
      else json_response 200 (jobj [(''status'', jstr ''ok'')]))"


definition body_field :: "response \<Rightarrow> string \<Rightarrow> json option" where
  "body_field r key = (case body r of None \<Rightarrow> None | Some v \<Rightarrow> json_field v key)"

subsection \<open>Requests, the body stream and the library\<close>

text \<open>
  What a handler reads of a request: \<open>self.path\<close>, the \<open>Content-Length\<close> header if the
  client sent one, and \<open>self.rfile\<close>, the bytes that arrive after the headers.
  \<open>rfile_eof\<close> tells whether the client closes its sending side after these bytes; a
  client that waits for the response on an open connection does not.
\<close>

record request =
  path :: string
  content_length :: "string option"
  rfile :: string
  rfile_eof :: bool

text \<open>
  \<open>self.rfile.read(n)\<close> for \<open>n > 0\<close> on a buffered socket file: it returns \<open>n\<close> bytes
  when they arrive, the bytes before the end of the stream when the client closes first,
  and it does not return (\<open>None\<close>) while fewer than \<open>n\<close> bytes have arrived on a
  connection that stays open. The second component is what is left to read.
\<close>

definition rfile_read :: "nat \<Rightarrow> string \<Rightarrow> bool \<Rightarrow> (string \<times> string) option" where
  "rfile_read n stream eof =
     (if n \<le> length stream then Some (take n stream, drop n stream)
      else if eof then Some (stream, [])
      else None)"

text \<open>
  How the handling of a request ends: a response is sent; an exception leaves the handler
  (the server logs it and closes the connection, no response is sent); or the handler
  waits in \<open>rfile.read\<close> for bytes that do not come.
\<close>

datatype outcome = Response response | Uncaught ustr | Blocked

text \<open>
  Library functions the handlers call and whose code is not part of the repository. The
  handlers are modelled for any behaviour of them. A raised exception is \<open>Inl\<close> of its
  \<open>str(e)\<close>.
  \<^item> \<open>json_loads\<close>: \<open>json.loads\<close> on a \<open>str\<close>;
  \<^item> \<open>utf8_decode\<close>: \<open>bytes.decode('utf-8')\<close>;
  \<^item> \<open>title\<close>: \<open>str.title()\<close> on a path segment;
  \<^item> \<open>py_repr\<close>: \<open>repr\<close> of a \<open>str\<close>, which the messages of \<open>ValueError\<close> and
    \<open>KeyError\<close> contain.
\<close>

record pylib =
  json_loads :: "ustr \<Rightarrow> ustr + json"
  utf8_decode :: "string \<Rightarrow> ustr + ustr"
  title :: "string \<Rightarrow> ustr"
  py_repr :: "string \<Rightarrow> ustr"

text \<open>\<open>int(self.headers.get('Content-Length', 0))\<close>\<close>

definition int_content_length :: "pylib \<Rightarrow> string option \<Rightarrow> ustr + int" where
  "int_content_length lib header =
     (case header of
        None \<Rightarrow> Inr 0
      | Some v \<Rightarrow>
          (case py_int v of
             None \<Rightarrow> Inl (str_of ''invalid literal for int() with base 10: '' @ py_repr lib v)
           | Some n \<Rightarrow> Inr n))"

text \<open>The message of the \<open>AttributeError\<close> that \<open>.get\<close> raises on a value that is no dict.\<close>

fun type_name :: "json \<Rightarrow> string" where
  "type_name JNull = ''NoneType''"
| "type_name (JBool b) = ''bool''"
| "type_name (JInt i) = ''int''"
| "type_name (JFloat f) = ''float''"
| "type_name (JStr s) = ''str''"
| "type_name (JArr xs) = ''list''"
| "type_name (JObj kvs) = ''dict''"

definition attribute_error :: "json \<Rightarrow> ustr" where
  "attribute_error v =
     str_of ([CHR 0x27] @ type_name v @ [CHR 0x27] @ '' object has no attribute ''
             @ [CHR 0x27] @ ''get'' @ [CHR 0x27])"

definition error_500 :: "ustr \<Rightarrow> response" where
  "error_500 e = json_response 500 (jobj [(''error'', JStr e)])"

subsection \<open>\<open>MockHydraHandler.do_POST\<close>\<close>

text \<open>
  The first two lines of \<open>do_POST\<close>: the body is read according to \<open>Content-Length\<close>.
  The \<open>int\<close> call is outside every \<open>try\<close>.
\<close>

definition read_post_data :: "pylib \<Rightarrow> request \<Rightarrow> outcome + string \<times> string" where
  "read_post_data lib req =
     (case int_content_length lib (content_length req) of
        Inl e \<Rightarrow> Inl (Uncaught e)
      | Inr n \<Rightarrow>
          if n > 0 then
            (case rfile_read (nat n) (rfile req) (rfile_eof req) of
               None \<Rightarrow> Inl Blocked
             | Some (post_data, rest) \<Rightarrow> Inr (post_data, rest))
          else Inr ([], rfile req))"

text \<open>
  The loop over \<open>data_str.split('&')\<close> of the login branch; \<open>username\<close> and \<open>password\<close>
  start as \<open>None\<close>. \<open>param.split('=')[1]\<close> raises \<open>IndexError\<close> out of range.
\<close>

definition second_field :: "ustr \<Rightarrow> ustr + json" where
  "second_field param =
     (let fields = py_split (of_char CHR ''='') param in
      if 1 < length fields then Inr (JStr (fields ! 1))
      else Inl (str_of ''list index out of range''))"

fun parse_form :: "ustr list \<Rightarrow> json \<Rightarrow> json \<Rightarrow> ustr + json \<times> json" where
  "parse_form [] username password = Inr (username, password)"
| "parse_form (param # params) username password =
     (if startswith param (str_of ''username='') then
        (case second_field param of
           Inl e \<Rightarrow> Inl e
         | Inr v \<Rightarrow> parse_form params v password)
      else if startswith param (str_of ''password='') then
        (case second_field param of
           Inl e \<Rightarrow> Inl e
         | Inr v \<Rightarrow> parse_form params username v)
      else parse_form params username password)"

text \<open>The credentials the login branch extracts from a body that is not empty.\<close>

definition parse_credentials :: "pylib \<Rightarrow> string \<Rightarrow> ustr + json \<times> json" where
  "parse_credentials lib post_data =
     (if py_contains ''username='' post_data then
        (case utf8_decode lib post_data of
           Inl e \<Rightarrow> Inl e
         | Inr data_str \<Rightarrow> parse_form (py_split (of_char CHR ''&'') data_str) JNull JNull)
      else
        (case utf8_decode lib post_data of
           Inl e \<Rightarrow> Inl e
         | Inr text \<Rightarrow>
             (case json_loads lib text of
                Inl e \<Rightarrow> Inl e
              | Inr data \<Rightarrow>
                  (case dict_get data (str_of ''username'') JNull of
                     None \<Rightarrow> Inl (attribute_error data)
                   | Some username \<Rightarrow>
                       (case dict_get data (str_of ''password'') JNull of
                          None \<Rightarrow> Inl (attribute_error data)
                        | Some password \<Rightarrow> Inr (username, password))))))"

definition login_ok :: response where
  "login_ok =
     \<lparr>status = 200,
      headers = [(''Content-type'', ''application/json''),
                 (''Set-Cookie'', ''hydra_session=mock_session_token; Path=/; HttpOnly'')],
      body = Some (jobj [(''username'', jstr ''admin''), (''fullname'', jstr ''Admin''),
                         (''emailaddress'', jstr ''admin@example.com''),
                         (''roles'', JArr [jstr ''admin''])])\<rparr>"

definition login :: "pylib \<Rightarrow> string \<Rightarrow> response" where
  "login lib post_data =
     (if post_data \<noteq> [] then
        (case parse_credentials lib post_data of
           Inl e \<Rightarrow> error_500 e
         | Inr (username, password) \<Rightarrow>
             if username = jstr ''admin'' \<and> password = jstr ''admin'' then login_ok
             else json_response 401 (jobj [(''error'', jstr ''unauthorized'')]))
      else json_response 400 (jobj [(''error'', jstr ''missing credentials'')]))"

text \<open>
  The branch for \<open>/project/\<close>. It parses \<open>Content-Length\<close> and reads \<open>rfile\<close> again,
  after the read at the top of \<open>do_POST\<close>: \<open>rest\<close> is what that read has left.
\<close>

definition create_project :: "pylib \<Rightarrow> store \<Rightarrow> request \<Rightarrow> string \<Rightarrow> outcome \<times> store" where
  "create_project lib storage req rest =
     (let project_name = last (py_split CHR ''/'' (path req));
          default_name = JStr (title lib project_name) in
      case int_content_length lib (content_length req) of
        Inl e \<Rightarrow> (Response (error_500 e), storage)
      | Inr n \<Rightarrow>
          (case (if n > 0 then rfile_read (nat n) rest (rfile_eof req) else Some (''{}'', rest)) of
             None \<Rightarrow> (Blocked, storage)
           | Some (post_data, rest') \<Rightarrow>
               (let fallback = project_record project_name default_name (JBool True);
                    project_data =
                      (if post_data \<noteq> [] then
                         (case utf8_decode lib post_data of
                            Inl e \<Rightarrow> fallback
                          | Inr text \<Rightarrow>
                              (case json_loads lib text of
                                 Inl e \<Rightarrow> fallback
                               | Inr v \<Rightarrow> v))
                       else fallback)
                in case dict_get project_data (str_of ''displayname'') default_name of
                     None \<Rightarrow> (Response (error_500 (attribute_error project_data)), storage)
                   | Some displayname \<Rightarrow>
                       (case dict_get project_data (str_of ''enabled'') (JBool True) of
                          None \<Rightarrow> (Response (error_500 (attribute_error project_data)), storage)
                        | Some enabled \<Rightarrow>
                            (let storage' =
                               AList.update project_name
                                 (project_record project_name displayname enabled) storage
                             in case map_of storage' project_name of
                                  None \<Rightarrow> (Response (error_500 (py_repr lib project_name)), storage')
                                | Some project \<Rightarrow> (Response (json_response 200 project), storage'))))))"

definition do_POST :: "pylib \<Rightarrow> store \<Rightarrow> request \<Rightarrow> outcome \<times> store" where
  "do_POST lib storage req =
     (case read_post_data lib req of
        Inl out \<Rightarrow> (out, storage)
      | Inr (post_data, rest) \<Rightarrow>
          if path req = ''/login'' then (Response (login lib post_data), storage)
          else if startswith (path req) ''/project/'' then create_project lib storage req rest
          else (Response (json_response 200 (jobj [(''status'', jstr ''created'')])), storage))"

subsection \<open>The other methods and the dispatch\<close>

definition do_GET :: "store \<Rightarrow> request \<Rightarrow> outcome \<times> store" where
  "do_GET storage req = (Response (do_GET_response storage (path req)), storage)"

definition do_PUT :: "store \<Rightarrow> request \<Rightarrow> outcome \<times> store" where
  "do_PUT storage req =
     (Response (json_response 200 (jobj [(''status'', jstr ''updated'')])), storage)"

definition deleted :: response where
  "deleted = json_response 200 (jobj [(''status'', jstr ''deleted'')])"

definition do_DELETE :: "store \<Rightarrow> request \<Rightarrow> outcome \<times> store" where
  "do_DELETE storage req =
     (if startswith (path req) ''/project/'' then
        (let project_name = last (py_split CHR ''/'' (path req)) in
         if map_of storage project_name \<noteq> None
         then (Response deleted, AList.delete project_name storage)
         else (Response not_found, storage))
      else (Response deleted, storage))"

datatype http_method = GET | POST | PUT | DELETE

fun handle :: "pylib \<Rightarrow> store \<Rightarrow> http_method \<times> request \<Rightarrow> outcome \<times> store" where
  "handle lib storage (GET, req) = do_GET storage req"
| "handle lib storage (POST, req) = do_POST lib storage req"
| "handle lib storage (PUT, req) = do_PUT storage req"
| "handle lib storage (DELETE, req) = do_DELETE storage req"

text \<open>The project mapping after a sequence of requests, served one after the other.\<close>

definition run :: "pylib \<Rightarrow> store \<Rightarrow> (http_method \<times> request) list \<Rightarrow> store" where
  "run lib storage reqs = foldl (\<lambda>s mr. snd (handle lib s mr)) storage reqs"

definition names_match_keys :: "store \<Rightarrow> bool" where
  "names_match_keys storage =
     (\<forall>(k, project) \<in> set storage. json_field project ''name'' = Some (jstr k))"

subsection \<open>The health handler inside \<open>mock-hydra-server.py\<close>\<close>

definition no_body_404 :: response where
  "no_body_404 = \<lparr>status = 404, headers = [], body = None\<rparr>"

definition HealthHandler_do_GET :: "string \<Rightarrow> response" where
  "HealthHandler_do_GET p =
     (if p = ''/health''
      then json_response 200 (jobj [(''status'', jstr ''healthy''), (''hydra'', jstr ''running'')])
      else no_body_404)"

text \<open>\<open>start_health_server\<close>: the address it binds and the handler it serves.\<close>

definition start_health_server :: "(string \<times> nat) \<times> (string \<Rightarrow> response)" where
  "start_health_server = (([], 8080), HealthHandler_do_GET)"

section \<open>The health check server: \<open>health-check.py\<close>\<close>

text \<open>
  \<open>urlopen(url, timeout=...)\<close> either returns a response, of which the handler reads the
  status, or raises. What it does depends on the probed server, so it is a parameter.
\<close>

datatype urlopen_result = Returned int | Raised ustr

definition healthy :: response where
  "healthy =
     json_response 200
       (jobj [(''status'', jstr ''healthy''), (''hydra'', jstr ''running''), (''port'', JInt 3000)])"

definition unhealthy :: "ustr \<Rightarrow> response" where
  "unhealthy e = json_response 503 (jobj [(''status'', jstr ''unhealthy''), (''error'', JStr e)])"

text \<open>The body of the \<open>try\<close>: \<open>Inl\<close> is the exception the \<open>except\<close> clause receives.\<close>

definition probe :: "(string \<Rightarrow> nat \<Rightarrow> urlopen_result) \<Rightarrow> ustr + response" where
  "probe urlopen =
     (case urlopen ''http://localhost:3000/'' 5 of
        Raised e \<Rightarrow> Inl e
      | Returned st \<Rightarrow> if st = 200 then Inr healthy else Inl (str_of ''Hydra not responding''))"

definition health_check_do_GET :: "(string \<Rightarrow> nat \<Rightarrow> urlopen_result) \<Rightarrow> string \<Rightarrow> response" where
  "health_check_do_GET urlopen p =
     (if p = ''/health'' then
        (case probe urlopen of
           Inr r \<Rightarrow> r
         | Inl e \<Rightarrow> unhealthy e)
      else no_body_404)"

section \<open>A library instance for the examples\<close>

text \<open>
  The examples run the handlers on ASCII input. On the inputs the examples use, the
  functions below return what CPython returns: \<open>str.title()\<close> and \<open>repr\<close> on ASCII
  letters, digits and punctuation, \<open>decode('utf-8')\<close> on ASCII bytes, and \<open>json.loads\<close> on
  the three texts listed.
\<close>

definition is_ascii_lower :: "char \<Rightarrow> bool" where
  "is_ascii_lower c = (97 \<le> (of_char c :: nat) \<and> (of_char c :: nat) \<le> 122)"

definition is_ascii_upper :: "char \<Rightarrow> bool" where
  "is_ascii_upper c = (65 \<le> (of_char c :: nat) \<and> (of_char c :: nat) \<le> 90)"

fun ascii_title :: "bool \<Rightarrow> string \<Rightarrow> string" where
  "ascii_title cased [] = []"
| "ascii_title cased (c # cs) =
     (if is_ascii_lower c then
        (if cased then c else char_of (of_char c - 32 :: nat)) # ascii_title True cs
      else if is_ascii_upper c then
        (if cased then char_of (of_char c + 32 :: nat) else c) # ascii_title True cs
      else c # ascii_title False cs)"

definition example_json_loads :: "ustr \<Rightarrow> ustr + json" where
  \<open>example_json_loads text =
     (if text = str_of ''{}'' then Inr (JObj [])
      else if text = str_of ''[]'' then Inr (JArr [])
      else if text = str_of ''{"username":"admin","password":"admin"}''
        then Inr (jobj [(''username'', jstr ''admin''), (''password'', jstr ''admin'')])
      else Inl (str_of ''Expecting value: line 1 column 1 (char 0)''))\<close>

definition example_lib :: pylib where
  "example_lib =
     \<lparr>json_loads = example_json_loads,
      utf8_decode = (\<lambda>b. Inr (str_of b)),
      title = (\<lambda>s. str_of (ascii_title False s)),
      py_repr = (\<lambda>s. str_of ([CHR 0x27] @ s @ [CHR 0x27]))\<rparr>"

section \<open>Facts about the string operations\<close>

lemma startswith_iff: "startswith s p \<longleftrightarrow> (\<exists>r. s = p @ r)"
  by (induction s p rule: startswith.induct) auto

lemma split_from_not_Nil: "split_from sep cur xs \<noteq> []"
  by (induction xs arbitrary: cur) auto

lemma split_from_no_sep: "sep \<notin> set xs \<Longrightarrow> split_from sep cur xs = [cur @ xs]"
  by (induction xs arbitrary: cur) auto

lemma split_from_append:
  "split_from sep cur (xs @ sep # ys) = split_from sep cur xs @ split_from sep [] ys"
  by (induction xs arbitrary: cur) auto

lemma split_from_single: "split_from sep cur xs = [w] \<Longrightarrow> cur @ xs = w"
proof (induction xs arbitrary: cur)
  case Nil
  then show ?case by simp
next
  case (Cons c cs)
  show ?case
  proof (cases "c = sep")
    case True
    with Cons.prems show ?thesis by (simp add: split_from_not_Nil)
  next
    case False
    with Cons.prems have "split_from sep (cur @ [c]) cs = [w]" by simp
    from Cons.IH [OF this] show ?thesis by simp
  qed
qed

lemma split_from_Cons:
  "split_from sep cur xs = w # v # ws \<Longrightarrow>
   \<exists>pre ys. xs = pre @ sep # ys \<and> w = cur @ pre \<and> split_from sep [] ys = v # ws"
proof (induction xs arbitrary: cur)
  case Nil
  then show ?case by simp
next
  case (Cons c cs)
  show ?case
  proof (cases "c = sep")
    case True
    with Cons.prems have "w = cur @ []" "split_from sep [] cs = v # ws" by auto
    with True show ?thesis by blast
  next
    case False
    with Cons.prems have "split_from sep (cur @ [c]) cs = w # v # ws" by simp
    from Cons.IH [OF this] obtain pre ys
      where "cs = pre @ sep # ys" "w = (cur @ [c]) @ pre" "split_from sep [] ys = v # ws"
      by blast
    then have "c # cs = (c # pre) @ sep # ys \<and> w = cur @ (c # pre)
                 \<and> split_from sep [] ys = v # ws"
      by simp
    then show ?thesis by blast
  qed
qed

lemma py_split_not_Nil: "py_split sep xs \<noteq> []"
  by (simp add: py_split_def split_from_not_Nil)

lemma py_split_no_sep: "sep \<notin> set xs \<Longrightarrow> py_split sep xs = [xs]"
  by (simp add: py_split_def split_from_no_sep)

lemma py_split_append: "py_split sep (xs @ sep # ys) = py_split sep xs @ py_split sep ys"
  by (simp add: py_split_def split_from_append)

text \<open>\<open>path.split("/")[-1]\<close> is what follows the last slash.\<close>

lemma last_py_split:
  "sep \<notin> set name \<Longrightarrow> last (py_split sep (xs @ sep # name)) = name"
  by (simp add: py_split_append py_split_no_sep py_split_not_Nil)

lemma py_split_single: "py_split sep xs = [w] \<Longrightarrow> xs = w"
  using split_from_single [of sep "[]" xs w] by (simp add: py_split_def)

lemma py_split_Cons:
  "py_split sep xs = w # v # ws \<Longrightarrow> \<exists>ys. xs = w @ sep # ys \<and> py_split sep ys = v # ws"
  using split_from_Cons [of sep "[]" xs w v ws] by (auto simp: py_split_def)

lemma last_segment_build:
  "CHR ''/'' \<notin> set name \<Longrightarrow> last (py_split CHR ''/'' (''/build/'' @ name)) = name"
  using last_py_split [of "CHR ''/''" name "''/build''"] by simp

lemma last_segment_project:
  "CHR ''/'' \<notin> set name \<Longrightarrow> last (py_split CHR ''/'' (''/project/'' @ name)) = name"
  using last_py_split [of "CHR ''/''" name "''/project''"] by simp

section \<open>Evaluating \<open>int\<close> on the identifiers used below\<close>

lemmas py_int_simps = py_int_def py_strip_def py_isspace_def py_isdigit_def digits_value_def

lemma py_int_123456: "py_int ''123456'' = Some 123456"
  by (simp add: py_int_simps)

lemma py_int_123459: "py_int ''123459'' = Some 123459"
  by (simp add: py_int_simps)

lemma py_int_123460: "py_int ''123460'' = Some 123460"
  by (simp add: py_int_simps)

lemma py_int_abc: "py_int ''abc'' = None"
  by (simp add: py_int_simps)

lemma py_int_7: "py_int ''7'' = Some 7"
  by (simp add: py_int_simps)

lemma py_int_constituents: "py_int ''constituents'' = None"
  by (simp add: py_int_simps)

section \<open>\<open>GET /build/{id}\<close>\<close>

text \<open>Every path below \<open>/build/\<close> is answered by the build branch, from its last segment.\<close>

lemma do_GET_build:
  "CHR ''/'' \<notin> set build_id \<Longrightarrow>
   do_GET_response storage (''/build/'' @ build_id) =
     (case py_int build_id of
        None \<Rightarrow> invalid_build_id
      | Some build_id_int \<Rightarrow>
          if build_id_int = 123456 then
            json_response 200 (build_record 123456 ''hello-2.12.1'' (JBool True) (JInt 0))
          else if build_id_int = 123459 then
            json_response 200 (build_record 123459 ''hello-in-progress'' (JBool False) JNull)
          else if build_id_int = 123460 then
            json_response 200 (build_record 123460 ''hello-failed'' (JBool True) (JInt 1))
          else not_found)"
  unfolding do_GET_response_def using last_segment_build [of build_id]
  by (simp)

lemma body_field_build_record:
  "body_field (json_response code (build_record i n f b)) ''finished'' = Some f"
  "body_field (json_response code (build_record i n f b)) ''buildstatus'' = Some b"
  by (simp_all add: body_field_def json_response_def build_record_def jobj_def str_of_def)

text \<open>
  C2. A \<open>GET\<close> of \<open>/build/{id}\<close>, where \<open>{id}\<close> is one path segment: if \<open>int\<close> does not
  parse \<open>{id}\<close> the response is 400 with the body \<open>{"error": "invalid build id"}\<close>; if it
  parses to 123456 the response is 200 with \<open>finished\<close> true and \<open>buildstatus\<close> 0; to 123459,
  200 with \<open>finished\<close> false and \<open>buildstatus\<close> null; to 123460, 200 with \<open>finished\<close> true
  and \<open>buildstatus\<close> 1; for every other integer the response is 404.
\<close>

theorem C2_build_by_id:
  assumes "CHR ''/'' \<notin> set build_id"
  shows "let r = do_GET_response storage (''/build/'' @ build_id) in
    (py_int build_id = None \<longrightarrow>
       r = \<lparr>status = 400, headers = [(''Content-type'', ''application/json'')],
            body = Some (jobj [(''error'', jstr ''invalid build id'')])\<rparr>) \<and>
    (py_int build_id = Some 123456 \<longrightarrow>
       status r = 200 \<and> body_field r ''finished'' = Some (JBool True)
         \<and> body_field r ''buildstatus'' = Some (JInt 0)) \<and>
    (py_int build_id = Some 123459 \<longrightarrow>
       status r = 200 \<and> body_field r ''finished'' = Some (JBool False)
         \<and> body_field r ''buildstatus'' = Some JNull) \<and>
    (py_int build_id = Some 123460 \<longrightarrow>
       status r = 200 \<and> body_field r ''finished'' = Some (JBool True)
         \<and> body_field r ''buildstatus'' = Some (JInt 1)) \<and>
    (\<forall>n. py_int build_id = Some n \<longrightarrow> n \<notin> {123456, 123459, 123460} \<longrightarrow> status r = 404)"
  unfolding Let_def do_GET_build [OF assms]
  by (simp add: body_field_build_record invalid_build_id_def)
     (simp add: json_response_def not_found_def)

theorem C2_build_by_id_witness:
  "CHR ''/'' \<notin> set ''123456'' \<and> py_int ''123456'' = Some 123456 \<and>
   status (do_GET_response projects_storage ''/build/123456'') = 200 \<and>
   body_field (do_GET_response projects_storage ''/build/123456'') ''finished''
     = Some (JBool True) \<and>
   body_field (do_GET_response projects_storage ''/build/123456'') ''buildstatus''
     = Some (JInt 0) \<and>
   CHR ''/'' \<notin> set ''123459'' \<and> py_int ''123459'' = Some 123459 \<and>
   body_field (do_GET_response projects_storage ''/build/123459'') ''buildstatus''
     = Some JNull \<and>
   CHR ''/'' \<notin> set ''123460'' \<and> py_int ''123460'' = Some 123460 \<and>
   body_field (do_GET_response projects_storage ''/build/123460'') ''buildstatus''
     = Some (JInt 1) \<and>
   CHR ''/'' \<notin> set ''abc'' \<and> py_int ''abc'' = None \<and>
   status (do_GET_response projects_storage ''/build/abc'') = 400 \<and>
   CHR ''/'' \<notin> set ''7'' \<and> py_int ''7'' = Some 7 \<and> (7::int) \<notin> {123456, 123459, 123460} \<and>
   status (do_GET_response projects_storage ''/build/7'') = 404"
  using C2_build_by_id [of "''123456''" projects_storage]
        C2_build_by_id [of "''123459''" projects_storage]
        C2_build_by_id [of "''123460''" projects_storage]
        C2_build_by_id [of "''abc''" projects_storage]
        C2_build_by_id [of "''7''" projects_storage]
  by (simp add: py_int_123456 py_int_123459 py_int_123460 py_int_abc py_int_7 Let_def)

section \<open>\<open>GET /build/{id}/constituents\<close>\<close>

text \<open>
  The branch for \<open>/constituents\<close> comes after the branch for \<open>/build/\<close> in the chain, so a
  path \<open>/build/{id}/constituents\<close> never reaches it: the build branch takes the last
  segment, \<open>constituents\<close>, for the build id.
\<close>

lemma do_GET_constituents_under_build:
  "do_GET_response storage (''/build/'' @ build_id @ ''/constituents'') = invalid_build_id"
proof -
  have "last (py_split CHR ''/'' ((''/build/'' @ build_id) @ CHR ''/'' # ''constituents''))
          = ''constituents''"
    by (rule last_py_split) simp
  then show ?thesis
    unfolding do_GET_response_def by (simp add: py_int_constituents)
qed

text \<open>
  C1 says that a \<open>GET\<close> of \<open>/build/{id}/constituents\<close> for a known build id is answered with
  200 and the two dependencies. The handler answers \<open>/build/123456/constituents\<close> with 400
  and \<open>{"error": "invalid build id"}\<close>.
\<close>

theorem C1_constituents_shadowed:
  "do_GET_response storage ''/build/123456/constituents'' =
     \<lparr>status = 400, headers = [(''Content-type'', ''application/json'')],
      body = Some (jobj [(''error'', jstr ''invalid build id'')])\<rparr>"
  using do_GET_constituents_under_build [of storage "''123456''"]
  by (simp add: invalid_build_id_def json_response_def)

section \<open>\<open>GET /jobset/...\<close>\<close>

lemma jobset_parts:
  "py_split CHR ''/'' (''/jobset/'' @ rest) = [] # ''jobset'' # py_split CHR ''/'' rest"
  using py_split_append [of "CHR ''/''" "[]" "''jobset'' @ CHR ''/'' # rest"]
        py_split_append [of "CHR ''/''" "''jobset''" rest]
  by (simp add: py_split_no_sep)

lemma jobset_parts_only_if:
  assumes len: "2 \<le> length (py_split CHR ''/'' rest)"
    and p0: "py_split CHR ''/'' rest ! 0 = ''nixpkgs''"
    and p1: "py_split CHR ''/'' rest ! 1 = ''trunk''"
  shows "rest = ''nixpkgs/trunk'' \<or> startswith rest ''nixpkgs/trunk/''"
proof -
  from len obtain a b more where ab: "py_split CHR ''/'' rest = a # b # more"
    by (cases "py_split CHR ''/'' rest"; cases "tl (py_split CHR ''/'' rest)") auto
  with p0 p1 have s: "py_split CHR ''/'' rest = ''nixpkgs'' # ''trunk'' # more" by simp
  from py_split_Cons [OF s] obtain ys
    where rest: "rest = ''nixpkgs'' @ CHR ''/'' # ys"
      and ys: "py_split CHR ''/'' ys = ''trunk'' # more"
    by blast
  show ?thesis
  proof (cases more)
    case Nil
    with ys have "ys = ''trunk''" by (simp add: py_split_single)
    with rest show ?thesis by simp
  next
    case (Cons v ws)
    with ys py_split_Cons [of "CHR ''/''" ys "''trunk''" v ws]
    obtain zs where "ys = ''trunk'' @ CHR ''/'' # zs" by blast
    with rest have "rest = ''nixpkgs/trunk/'' @ zs" by simp
    then show ?thesis by simp
  qed
qed

lemma jobset_parts_if:
  assumes "rest = ''nixpkgs/trunk'' \<or> startswith rest ''nixpkgs/trunk/''"
  shows "2 \<le> length (py_split CHR ''/'' rest) \<and> py_split CHR ''/'' rest ! 0 = ''nixpkgs''
          \<and> py_split CHR ''/'' rest ! 1 = ''trunk''"
proof -
  from assms consider (exact) "rest = ''nixpkgs/trunk''"
    | (below) zs where "rest = ''nixpkgs/trunk/'' @ zs"
    unfolding startswith_iff by blast
  then show ?thesis
  proof cases
    case exact
    then show ?thesis by (simp add: py_split_def)
  next
    case below
    then have "py_split CHR ''/'' rest = ''nixpkgs'' # ''trunk'' # py_split CHR ''/'' zs"
      using py_split_append [of "CHR ''/''" "''nixpkgs''" "''trunk'' @ CHR ''/'' # zs"]
            py_split_append [of "CHR ''/''" "''trunk''" zs]
      by (simp add: py_split_no_sep)
    then show ?thesis by simp
  qed
qed

lemma jobset_parts_iff:
  "(4 \<le> length (py_split CHR ''/'' (''/jobset/'' @ rest))
      \<and> py_split CHR ''/'' (''/jobset/'' @ rest) ! 2 = ''nixpkgs''
      \<and> py_split CHR ''/'' (''/jobset/'' @ rest) ! 3 = ''trunk'')
   \<longleftrightarrow> (rest = ''nixpkgs/trunk'' \<or> startswith rest ''nixpkgs/trunk/'')"
  unfolding jobset_parts using jobset_parts_only_if [of rest] jobset_parts_if [of rest]
  by (auto simp: numeral_eq_Suc)

lemma do_GET_jobset:
  "do_GET_response storage (''/jobset/'' @ rest) =
     (let parts = py_split CHR ''/'' (''/jobset/'' @ rest) in
         if length parts \<ge> 4 \<and> parts ! 2 = ''nixpkgs'' \<and> parts ! 3 = ''trunk''
         then json_response 200 jobset_record
         else not_found)"
  unfolding do_GET_response_def by simp

text \<open>
  C7, amended. A \<open>GET\<close> whose path is \<open>/jobset/nixpkgs/trunk\<close> or starts with
  \<open>/jobset/nixpkgs/trunk/\<close> returns 200 with the fixed jobset record
  \<open>{"name": "trunk", "project": "nixpkgs", "enabled": 1}\<close>; every other \<open>GET\<close> whose
  path starts with \<open>/jobset/\<close> returns 404. The handler tests \<open>len(parts) >= 4\<close>, so
  the segments after \<open>trunk\<close> are not looked at.
\<close>

theorem C7_jobset_amended:
  assumes "startswith p ''/jobset/''"
  shows "do_GET_response storage p =
     (if p = ''/jobset/nixpkgs/trunk'' \<or> startswith p ''/jobset/nixpkgs/trunk/''
      then json_response 200 jobset_record
      else json_response 404 (jobj [(''error'', jstr ''not found'')]))"
proof -
  from assms obtain rest where p: "p = ''/jobset/'' @ rest"
    unfolding startswith_iff by blast
  have "(p = ''/jobset/nixpkgs/trunk'' \<or> startswith p ''/jobset/nixpkgs/trunk/'')
        \<longleftrightarrow> (rest = ''nixpkgs/trunk'' \<or> startswith rest ''nixpkgs/trunk/'')"
    unfolding p by simp
  then show ?thesis
    unfolding p do_GET_jobset using jobset_parts_iff [of rest]
    by (simp add: Let_def not_found_def)
qed

theorem C7_jobset_amended_witness:
  "startswith ''/jobset/nixpkgs/trunk'' ''/jobset/'' \<and>
   do_GET_response projects_storage ''/jobset/nixpkgs/trunk'' = json_response 200 jobset_record \<and>
   startswith ''/jobset/nixpkgs/trunk/evals'' ''/jobset/'' \<and>
   do_GET_response projects_storage ''/jobset/nixpkgs/trunk/evals'' = json_response 200 jobset_record \<and>
   startswith ''/jobset/hydra/master'' ''/jobset/'' \<and>
   status (do_GET_response projects_storage ''/jobset/hydra/master'') = 404"
  using C7_jobset_amended [of "''/jobset/nixpkgs/trunk''" projects_storage]
        C7_jobset_amended [of "''/jobset/nixpkgs/trunk/evals''" projects_storage]
        C7_jobset_amended [of "''/jobset/hydra/master''" projects_storage]
  by (simp add: json_response_def)

text \<open>
  C7 as stated says that every path below \<open>/jobset/\<close> other than
  \<open>/jobset/nixpkgs/trunk\<close> returns 404. The path \<open>/jobset/nixpkgs/trunk/evals\<close> returns
  200, with the response of \<open>/jobset/nixpkgs/trunk\<close>.
\<close>

theorem C7_jobset_counterexample:
  "startswith ''/jobset/nixpkgs/trunk/evals'' ''/jobset/'' \<and>
   ''/jobset/nixpkgs/trunk/evals'' \<noteq> ''/jobset/nixpkgs/trunk'' \<and>
   status (do_GET_response projects_storage ''/jobset/nixpkgs/trunk/evals'') = 200 \<and>
   do_GET_response projects_storage ''/jobset/nixpkgs/trunk/evals''
     = do_GET_response projects_storage ''/jobset/nixpkgs/trunk''"
  by (simp add: do_GET_response_def json_response_def py_split_def)

section \<open>The two health handlers\<close>

text \<open>
  C8. The health handler inside \<open>mock-hydra-server.py\<close>, served on port 8080, answers every
  \<open>GET /health\<close> with 200 and \<open>{"status": "healthy", "hydra": "running"}\<close>. Its response
  is a function of the path alone: it probes nothing, its status is never 503 and its body
  has no \<open>port\<close> field.
\<close>

theorem C8_bundled_health:
  "HealthHandler_do_GET ''/health'' =
     \<lparr>status = 200, headers = [(''Content-type'', ''application/json'')],
      body = Some (jobj [(''status'', jstr ''healthy''), (''hydra'', jstr ''running'')])\<rparr>
   \<and> status (HealthHandler_do_GET p) \<noteq> 503
   \<and> body_field (HealthHandler_do_GET p) ''port'' = None
   \<and> start_health_server = (([], 8080), HealthHandler_do_GET)"
  by (simp add: HealthHandler_do_GET_def json_response_def no_body_404_def body_field_def
      jobj_def str_of_def start_health_server_def)

text \<open>
  C4. The handler of \<open>health-check.py\<close>, on \<open>GET /health\<close>: if the probe of
  \<open>http://localhost:3000/\<close> returns status 200, the response is 200 with
  \<open>{"status": "healthy", "hydra": "running", "port": 3000}\<close>; if the probe raises, or returns
  another status, the response is 503 with \<open>{"status": "unhealthy", "error": message}\<close>,
  the message being that of the exception, or \<open>Hydra not responding\<close>. On every other path
  the response is 404 with no body.
\<close>

theorem C4_health_check:
  "(urlopen ''http://localhost:3000/'' 5 = Returned 200 \<longrightarrow>
      health_check_do_GET urlopen ''/health'' =
        \<lparr>status = 200, headers = [(''Content-type'', ''application/json'')],
         body = Some (jobj [(''status'', jstr ''healthy''), (''hydra'', jstr ''running''),
                            (''port'', JInt 3000)])\<rparr>) \<and>
   (urlopen ''http://localhost:3000/'' 5 = Raised e \<longrightarrow>
      health_check_do_GET urlopen ''/health'' =
        \<lparr>status = 503, headers = [(''Content-type'', ''application/json'')],
         body = Some (jobj [(''status'', jstr ''unhealthy''), (''error'', JStr e)])\<rparr>) \<and>
   (urlopen ''http://localhost:3000/'' 5 = Returned st \<and> st \<noteq> 200 \<longrightarrow>
      health_check_do_GET urlopen ''/health'' =
        \<lparr>status = 503, headers = [(''Content-type'', ''application/json'')],
         body = Some (jobj [(''status'', jstr ''unhealthy''),
                            (''error'', jstr ''Hydra not responding'')])\<rparr>) \<and>
   (p \<noteq> ''/health'' \<longrightarrow>
      health_check_do_GET urlopen p = \<lparr>status = 404, headers = [], body = None\<rparr>)"
  by (simp add: health_check_do_GET_def probe_def healthy_def unhealthy_def json_response_def
      no_body_404_def jstr_def)

theorem C4_health_check_witness:
  "health_check_do_GET (\<lambda>url timeout. Returned 200) ''/health'' =
        \<lparr>status = 200, headers = [(''Content-type'', ''application/json'')],
         body = Some (jobj [(''status'', jstr ''healthy''), (''hydra'', jstr ''running''),
                            (''port'', JInt 3000)])\<rparr> \<and>
   health_check_do_GET (\<lambda>url timeout. Raised (str_of ''timed out'')) ''/health'' =
        \<lparr>status = 503, headers = [(''Content-type'', ''application/json'')],
         body = Some (jobj [(''status'', jstr ''unhealthy''), (''error'', jstr ''timed out'')])\<rparr> \<and>
   (204::int) \<noteq> 200 \<and>
   health_check_do_GET (\<lambda>url timeout. Returned 204) ''/health'' =
        \<lparr>status = 503, headers = [(''Content-type'', ''application/json'')],
         body = Some (jobj [(''status'', jstr ''unhealthy''),
                            (''error'', jstr ''Hydra not responding'')])\<rparr> \<and>
   ''/'' \<noteq> ''/health'' \<and>
   health_check_do_GET (\<lambda>url timeout. Returned 200) ''/'' = \<lparr>status = 404, headers = [], body = None\<rparr>"
  using C4_health_check [of "\<lambda>url timeout. Returned 200" "str_of ''x''" 0 "''/''"]
        C4_health_check [of "\<lambda>url timeout. Raised (str_of ''timed out'')" "str_of ''timed out''" 0 "''/''"]
        C4_health_check [of "\<lambda>url timeout. Returned 204" "str_of ''x''" 204 "''/''"]
  by (simp add: jstr_def)

section \<open>\<open>POST /login\<close>\<close>


text \<open>
  What the login branch extracts: from a JSON object, the values under \<open>username\<close> and
  \<open>password\<close> (\<open>None\<close> for a missing key); from a form body
  \<open>username=u&password=p\<close>, the texts \<open>u\<close> and \<open>p\<close> as they are written, without URL
  decoding.
\<close>

lemma parse_credentials_json:
  assumes "\<not> py_contains ''username='' post_data"
    and "utf8_decode lib post_data = Inr text" and "json_loads lib text = Inr (JObj kvs)"
  shows "parse_credentials lib post_data =
           Inr (case map_of kvs (str_of ''username'') of None \<Rightarrow> JNull | Some v \<Rightarrow> v,
                case map_of kvs (str_of ''password'') of None \<Rightarrow> JNull | Some v \<Rightarrow> v)"
  using assms by (simp add: parse_credentials_def)

lemma second_field_prefix:
  assumes "of_char CHR ''='' \<notin> set key" and "of_char CHR ''='' \<notin> set v"
  shows "second_field (key @ of_char CHR ''='' # v) = Inr (JStr v)"
  using py_split_append [of "of_char CHR ''=''" key v] assms
  by (simp add: second_field_def py_split_no_sep)

lemma parse_credentials_form:
  assumes "py_contains ''username='' post_data"
    and "utf8_decode lib post_data
           = Inr (str_of ''username='' @ u @ of_char CHR ''&'' # str_of ''password='' @ pw)"
    and "of_char CHR ''&'' \<notin> set u" and "of_char CHR ''='' \<notin> set u"
    and "of_char CHR ''&'' \<notin> set pw" and "of_char CHR ''='' \<notin> set pw"
  shows "parse_credentials lib post_data = Inr (JStr u, JStr pw)"
proof -
  have amp: "of_char CHR ''&'' \<notin> set (str_of ''username='' @ u)"
       "of_char CHR ''&'' \<notin> set (str_of ''password='' @ pw)"
    using assms(3,5) by (simp_all add: str_of_def)
  have parts: "py_split (of_char CHR ''&'')
                 (str_of ''username='' @ u @ of_char CHR ''&'' # str_of ''password='' @ pw)
               = [str_of ''username='' @ u, str_of ''password='' @ pw]"
    using py_split_append [of "of_char CHR ''&''" "str_of ''username='' @ u"
            "str_of ''password='' @ pw"] amp
    by (simp add: py_split_no_sep)
  have su: "second_field (str_of ''username='' @ u) = Inr (JStr u)"
    using second_field_prefix [of "str_of ''username''" u] assms(4) by (simp add: str_of_def)
  have sp: "second_field (str_of ''password='' @ pw) = Inr (JStr pw)"
    using second_field_prefix [of "str_of ''password''" pw] assms(6) by (simp add: str_of_def)
  have st: "startswith (str_of ''username='' @ u) (str_of ''username='')"
       "\<not> startswith (str_of ''password='' @ pw) (str_of ''username='')"
       "startswith (str_of ''password='' @ pw) (str_of ''password='')"
    by (simp_all add: str_of_def)
  show ?thesis
    unfolding parse_credentials_def using assms(1,2) parts su sp st
    by simp
qed



section \<open>The project routes\<close>

lemma do_GET_project:
  "CHR ''/'' \<notin> set name \<Longrightarrow>
   do_GET_response storage (''/project/'' @ name) =
     (case map_of storage name of
        Some project \<Rightarrow> json_response 200 project
      | None \<Rightarrow> not_found)"
  unfolding do_GET_response_def using last_segment_project [of name]
  by (simp split: option.split)

lemma do_DELETE_project:
  "CHR ''/'' \<notin> set name \<Longrightarrow> path req = ''/project/'' @ name \<Longrightarrow>
   do_DELETE storage req =
     (if map_of storage name \<noteq> None
      then (Response deleted, AList.delete name storage)
      else (Response not_found, storage))"
  unfolding do_DELETE_def using last_segment_project [of name]
  by simp

lemma create_project_cases:
  "create_project lib storage req rest = (out, storage') \<Longrightarrow>
   (storage' = storage \<and> (out = Blocked \<or> (\<exists>e. out = Response (error_500 e)))) \<or>
   (\<exists>displayname enabled.
      storage' = AList.update (last (py_split CHR ''/'' (path req)))
                   (project_record (last (py_split CHR ''/'' (path req))) displayname enabled)
                   storage \<and>
      out = Response (json_response 200
              (project_record (last (py_split CHR ''/'' (path req))) displayname enabled)))"
  unfolding create_project_def Let_def
  by (auto split: sum.splits option.splits if_splits prod.splits simp: update_conv')

lemma do_POST_cases:
  "do_POST lib storage req = (out, storage') \<Longrightarrow>
   storage' = storage \<or>
   (startswith (path req) ''/project/'' \<and>
    (\<exists>displayname enabled.
      storage' = AList.update (last (py_split CHR ''/'' (path req)))
                   (project_record (last (py_split CHR ''/'' (path req))) displayname enabled)
                   storage \<and>
      out = Response (json_response 200
              (project_record (last (py_split CHR ''/'' (path req))) displayname enabled))))"
  unfolding do_POST_def
  by (auto split: sum.splits prod.splits if_splits dest: create_project_cases)

lemma do_POST_project_cases:
  assumes "startswith (path req) ''/project/''"
    and "do_POST lib storage req = (out, storage')"
  shows "(storage' = storage \<and>
            (out = Blocked \<or> (\<exists>e. out = Uncaught e) \<or> (\<exists>e. out = Response (error_500 e)))) \<or>
         (\<exists>displayname enabled.
            storage' = AList.update (last (py_split CHR ''/'' (path req)))
                         (project_record (last (py_split CHR ''/'' (path req))) displayname enabled)
                         storage \<and>
            out = Response (json_response 200
                    (project_record (last (py_split CHR ''/'' (path req))) displayname enabled)))"
proof -
  have "path req \<noteq> ''/login''" using assms(1) by auto
  then show ?thesis
    using assms unfolding do_POST_def read_post_data_def
    by (auto split: sum.splits prod.splits if_splits option.splits dest: create_project_cases)
qed

lemma do_POST_project_200:
  assumes "CHR ''/'' \<notin> set name" and "path req = ''/project/'' @ name"
    and "do_POST lib storage req = (Response r, storage')" and "status r = 200"
  shows "\<exists>displayname enabled.
           storage' = AList.update name (project_record name displayname enabled) storage \<and>
           r = json_response 200 (project_record name displayname enabled)"
proof -
  have seg: "last (py_split CHR ''/'' (path req)) = name"
    using last_segment_project [OF assms(1)] assms(2) by simp
  have "startswith (path req) ''/project/''"
    using assms(2) by simp
  from do_POST_project_cases [OF this assms(3)] assms(4) show ?thesis
    unfolding seg by (auto simp: error_500_def json_response_def)
qed

subsection \<open>Delete, then read\<close>

text \<open>
  C6. For a project name \<open>{name}\<close> (one path segment), a \<open>DELETE\<close> of
  \<open>/project/{name}\<close> removes the entry and returns 200 with \<open>{"status": "deleted"}\<close> when
  the entry is present, and returns 404 when it is absent; in both cases the mapping has no
  entry for \<open>{name}\<close> afterwards and a \<open>GET\<close> of \<open>/project/{name}\<close> on it returns 404.
\<close>

theorem C6_delete_then_get:
  assumes "CHR ''/'' \<notin> set name"
    and "path req = ''/project/'' @ name" and "path req' = ''/project/'' @ name"
  shows "(map_of storage name \<noteq> None \<longrightarrow>
            do_DELETE storage req =
              (Response \<lparr>status = 200, headers = [(''Content-type'', ''application/json'')],
                         body = Some (jobj [(''status'', jstr ''deleted'')])\<rparr>,
               AList.delete name storage)) \<and>
         (map_of storage name = None \<longrightarrow>
            (\<exists>r. do_DELETE storage req = (Response r, storage) \<and> status r = 404)) \<and>
         map_of (snd (do_DELETE storage req)) name = None \<and>
         (\<exists>r. do_GET (snd (do_DELETE storage req)) req'
                 = (Response r, snd (do_DELETE storage req)) \<and> status r = 404)"
proof -
  have gone: "map_of (snd (do_DELETE storage req)) name = None"
    unfolding do_DELETE_project [OF assms(1,2)] by (simp add: delete_conv')
  have "do_GET (snd (do_DELETE storage req)) req'
          = (Response not_found, snd (do_DELETE storage req))"
    unfolding do_GET_def assms(3) do_GET_project [OF assms(1)] using gone by simp
  moreover have "status not_found = 404"
    by (simp add: not_found_def json_response_def)
  ultimately show ?thesis
    using gone unfolding do_DELETE_project [OF assms(1,2)]
    by (auto simp: deleted_def json_response_def not_found_def)
qed

theorem C6_delete_then_get_witness:
  "CHR ''/'' \<notin> set ''hydra'' \<and> map_of projects_storage ''hydra'' \<noteq> None \<and>
   fst (do_DELETE projects_storage
          \<lparr>path = ''/project/hydra'', content_length = None, rfile = [], rfile_eof = False\<rparr>)
     = Response \<lparr>status = 200, headers = [(''Content-type'', ''application/json'')],
                 body = Some (jobj [(''status'', jstr ''deleted'')])\<rparr> \<and>
   map fst (snd (do_DELETE projects_storage
          \<lparr>path = ''/project/hydra'', content_length = None, rfile = [], rfile_eof = False\<rparr>))
     = [''nixpkgs''] \<and>
   (\<exists>r. fst (do_GET (snd (do_DELETE projects_storage
          \<lparr>path = ''/project/hydra'', content_length = None, rfile = [], rfile_eof = False\<rparr>))
          \<lparr>path = ''/project/hydra'', content_length = None, rfile = [], rfile_eof = False\<rparr>)
        = Response r \<and> status r = 404) \<and>
   CHR ''/'' \<notin> set ''ghost'' \<and> map_of projects_storage ''ghost'' = None \<and>
   (\<exists>r. do_DELETE projects_storage
          \<lparr>path = ''/project/ghost'', content_length = None, rfile = [], rfile_eof = False\<rparr>
        = (Response r, projects_storage) \<and> status r = 404)"
proof -
  let ?h = "\<lparr>path = ''/project/hydra'', content_length = None, rfile = [], rfile_eof = False\<rparr>"
  let ?g = "\<lparr>path = ''/project/ghost'', content_length = None, rfile = [], rfile_eof = False\<rparr>"
  have h: "map_of projects_storage ''hydra'' \<noteq> None"
    and g: "map_of projects_storage ''ghost'' = None"
    by (simp_all add: projects_storage_def)
  have nh: "CHR ''/'' \<notin> set ''hydra''" and ng: "CHR ''/'' \<notin> set ''ghost''"
    by simp_all
  have ph: "path ?h = ''/project/'' @ ''hydra''" and pg: "path ?g = ''/project/'' @ ''ghost''"
    by simp_all
  note at_hydra = C6_delete_then_get [OF nh ph ph, of projects_storage]
  note at_ghost = C6_delete_then_get [OF ng pg pg, of projects_storage]
  from at_ghost g
  have gr: "\<exists>r. do_DELETE projects_storage ?g = (Response r, projects_storage) \<and> status r = 404"
    by blast
  from at_hydra h
  have hd: "do_DELETE projects_storage ?h
              = (Response \<lparr>status = 200, headers = [(''Content-type'', ''application/json'')],
                           body = Some (jobj [(''status'', jstr ''deleted'')])\<rparr>,
                 AList.delete ''hydra'' projects_storage)"
    by blast
  from at_hydra
  have hg: "\<exists>r. do_GET (snd (do_DELETE projects_storage ?h)) ?h
                 = (Response r, snd (do_DELETE projects_storage ?h)) \<and> status r = 404"
    by blast
  from hg have hg': "\<exists>r. fst (do_GET (snd (do_DELETE projects_storage ?h)) ?h) = Response r
                        \<and> status r = 404"
    by auto
  have keys: "map fst (snd (do_DELETE projects_storage ?h)) = [''nixpkgs'']"
    unfolding hd by (simp add: projects_storage_def)
  from hd have resp: "fst (do_DELETE projects_storage ?h)
              = Response \<lparr>status = 200, headers = [(''Content-type'', ''application/json'')],
                           body = Some (jobj [(''status'', jstr ''deleted'')])\<rparr>"
    by simp
  from nh ng h g gr resp hg' keys show ?thesis by blast
qed

subsection \<open>Create, then read\<close>

text \<open>
  When a \<open>POST\<close> of \<open>/project/{name}\<close> is answered with 200, a \<open>GET\<close> of the same path
  on the resulting mapping returns the same response: the record stored.
\<close>

lemma create_then_read:
  assumes "CHR ''/'' \<notin> set name" and "path req = ''/project/'' @ name"
    and "path req' = ''/project/'' @ name"
    and "do_POST lib storage req = (Response r, storage')" and "status r = 200"
  shows "do_GET storage' req' = (Response r, storage')"
proof -
  from do_POST_project_200 [OF assms(1,2,4,5)] obtain displayname enabled
    where "storage' = AList.update name (project_record name displayname enabled) storage"
      and "r = json_response 200 (project_record name displayname enabled)"
    by blast
  then show ?thesis
    unfolding do_GET_def assms(3) do_GET_project [OF assms(1)]
    by (simp add: update_conv')
qed

text \<open>
  The branch reads the body a second time. When the client has sent a body of
  \<open>Content-Length\<close> bytes and keeps the connection open for the response, the first read
  has consumed the body and the second one waits: the request is never answered.
\<close>

lemma create_project_blocks:
  assumes "startswith (path req) ''/project/''"
    and "content_length req = Some header" and "py_int header = Some n" and "0 < n"
    and "length (rfile req) = nat n" and "\<not> rfile_eof req"
  shows "do_POST lib storage req = (Blocked, storage)"
proof -
  have "path req \<noteq> ''/login''" using assms(1) by auto
  then show ?thesis
    using assms
    by (simp add: do_POST_def create_project_def read_post_data_def int_content_length_def
        rfile_read_def Let_def)
qed

text \<open>
  When the client closes its sending side after the body, the second read returns no
  bytes and the default record is stored: the body is not looked at.
\<close>

lemma create_project_after_close:
  assumes "startswith (path req) ''/project/''"
    and "content_length req = Some header" and "py_int header = Some n" and "0 < n"
    and "length (rfile req) = nat n" and "rfile_eof req"
  shows "do_POST lib storage req =
     (let project_name = last (py_split CHR ''/'' (path req));
          project = project_record project_name (JStr (title lib project_name)) (JBool True)
      in (Response (json_response 200 project), AList.update project_name project storage))"
proof -
  have "path req \<noteq> ''/login''" using assms(1) by auto
  then show ?thesis
    using assms
    by (simp add: do_POST_def create_project_def read_post_data_def int_content_length_def
        rfile_read_def Let_def project_record_def str_of_def update_conv')
qed

text \<open>
  C5 says that for every project name and every request body a \<open>POST\<close> of
  \<open>/project/{name}\<close> followed by a \<open>GET\<close> of it returns 200 and the record stored. For the
  name \<open>foo\<close> and the body \<open>{}\<close>, sent with \<open>Content-Length: 2\<close> on a connection that
  stays open, the \<open>POST\<close> is not answered and stores nothing; on the unchanged mapping a
  \<open>GET\<close> of \<open>/project/foo\<close> is answered with 404.
\<close>

theorem C5_create_project_blocks:
  "do_POST lib projects_storage
     \<lparr>path = ''/project/foo'', content_length = Some ''2'', rfile = ''{}'', rfile_eof = False\<rparr>
     = (Blocked, projects_storage) \<and>
   do_GET projects_storage
     \<lparr>path = ''/project/foo'', content_length = None, rfile = [], rfile_eof = False\<rparr>
     = (Response \<lparr>status = 404, headers = [(''Content-type'', ''application/json'')],
                  body = Some (jobj [(''error'', jstr ''not found'')])\<rparr>, projects_storage)"
proof -
  have "do_GET_response projects_storage (''/project/'' @ ''foo'')
          = \<lparr>status = 404, headers = [(''Content-type'', ''application/json'')],
             body = Some (jobj [(''error'', jstr ''not found'')])\<rparr>"
    by (subst do_GET_project)
       (simp_all add: projects_storage_def not_found_def json_response_def)
  then show ?thesis
    by (simp add: do_GET_def do_POST_def create_project_def read_post_data_def
        int_content_length_def rfile_read_def py_int_simps)
qed

subsection \<open>The name of a stored record is its key\<close>

lemma json_field_project_record:
  "json_field (project_record project_name displayname enabled) ''name'' = Some (jstr project_name)"
  by (simp add: project_record_def)

lemma names_match_keys_update:
  "names_match_keys storage \<Longrightarrow> json_field v ''name'' = Some (jstr k) \<Longrightarrow>
   names_match_keys (AList.update k v storage)"
  unfolding names_match_keys_def
  by (induction storage) (auto split: if_splits)

lemma names_match_keys_delete:
  "names_match_keys storage \<Longrightarrow> names_match_keys (AList.delete k storage)"
  unfolding names_match_keys_def by (auto simp: AList.delete_eq)

lemma names_match_keys_handle:
  assumes "names_match_keys storage"
  shows "names_match_keys (snd (handle lib storage (m, req)))"
proof (cases m)
  case GET
  with assms show ?thesis by (simp add: do_GET_def)
next
  case POST
  obtain out storage' where p: "do_POST lib storage req = (out, storage')"
    by (cases "do_POST lib storage req")
  from do_POST_cases [OF p] assms have "names_match_keys storage'"
    by (auto simp: names_match_keys_update json_field_project_record)
  with POST p show ?thesis by simp
next
  case PUT
  with assms show ?thesis by (simp add: do_PUT_def)
next
  case DELETE
  with assms show ?thesis by (simp add: do_DELETE_def Let_def names_match_keys_delete)
qed

lemma names_match_keys_run:
  "names_match_keys storage \<Longrightarrow> names_match_keys (run lib storage reqs)"
  unfolding run_def
proof (induction reqs arbitrary: storage)
  case Nil
  then show ?case by simp
next
  case (Cons mr reqs)
  obtain m req where "mr = (m, req)" by (cases mr)
  with Cons.prems have "names_match_keys (snd (handle lib storage mr))"
    by (simp add: names_match_keys_handle)
  from Cons.IH [OF this] show ?case by simp
qed

lemma names_match_keys_seed: "names_match_keys projects_storage"
  by (simp add: names_match_keys_def projects_storage_def project_record_def)

text \<open>
  C9. In every state of the project mapping reached from the two seed entries by a sequence
  of \<open>GET\<close>, \<open>POST\<close>, \<open>PUT\<close> and \<open>DELETE\<close> requests, the \<open>name\<close> field of every stored
  record equals the key under which it is stored. In particular the record that a
  \<open>POST\<close> of \<open>/project/{name}\<close> stores and returns has the name \<open>{name}\<close> of the path,
  whatever the body holds.
\<close>

theorem C9_names_match_keys:
  "names_match_keys (run lib projects_storage reqs) \<and>
   (CHR ''/'' \<notin> set name \<and> path req = ''/project/'' @ name \<and>
    do_POST lib (run lib projects_storage reqs) req = (Response r, storage') \<and> status r = 200
    \<longrightarrow> body_field r ''name'' = Some (jstr name)
        \<and> (\<exists>project. map_of storage' name = Some project
              \<and> json_field project ''name'' = Some (jstr name)))"
proof -
  have "body_field r ''name'' = Some (jstr name)
        \<and> (\<exists>project. map_of storage' name = Some project
              \<and> json_field project ''name'' = Some (jstr name))"
    if "CHR ''/'' \<notin> set name" and "path req = ''/project/'' @ name"
      and p: "do_POST lib (run lib projects_storage reqs) req = (Response r, storage')"
      and "status r = 200"
  proof -
    from do_POST_project_200 [OF that] obtain displayname enabled
      where "storage' = AList.update name (project_record name displayname enabled)
                          (run lib projects_storage reqs)"
        and "r = json_response 200 (project_record name displayname enabled)"
      by blast
    then show ?thesis
      by (simp add: update_conv' body_field_def json_response_def json_field_project_record)
  qed
  then show ?thesis
    using names_match_keys_run [OF names_match_keys_seed] by blast
qed

lemma run_example:
  "run example_lib projects_storage
     [(POST, \<lparr>path = ''/project/foo'', content_length = None, rfile = [], rfile_eof = False\<rparr>),
      (DELETE, \<lparr>path = ''/project/hydra'', content_length = None, rfile = [], rfile_eof = False\<rparr>)]
   = [(''nixpkgs'', project_record ''nixpkgs'' (jstr ''Nixpkgs'') (JBool True)),
      (''foo'', project_record ''foo'' (jstr ''Foo'') (JBool True))]"
  by (simp add: run_def do_POST_def do_DELETE_def create_project_def read_post_data_def
      int_content_length_def projects_storage_def example_lib_def example_json_loads_def
      is_ascii_lower_def is_ascii_upper_def py_split_def str_of_def jstr_def project_record_def
      Let_def)

lemma post_bar_example:
  "do_POST example_lib
     [(''nixpkgs'', project_record ''nixpkgs'' (jstr ''Nixpkgs'') (JBool True)),
      (''foo'', project_record ''foo'' (jstr ''Foo'') (JBool True))]
     \<lparr>path = ''/project/bar'', content_length = Some ''2'', rfile = ''{}'', rfile_eof = True\<rparr>
   = (Response (json_response 200 (project_record ''bar'' (jstr ''Bar'') (JBool True))),
      [(''nixpkgs'', project_record ''nixpkgs'' (jstr ''Nixpkgs'') (JBool True)),
       (''foo'', project_record ''foo'' (jstr ''Foo'') (JBool True)),
       (''bar'', project_record ''bar'' (jstr ''Bar'') (JBool True))])"
  by (simp add: do_POST_def create_project_def read_post_data_def rfile_read_def py_int_simps
      int_content_length_def example_lib_def example_json_loads_def
      is_ascii_lower_def is_ascii_upper_def py_split_def str_of_def jstr_def project_record_def
      Let_def)

theorem C9_names_match_keys_witness:
  "names_match_keys
     (run example_lib projects_storage
        [(POST, \<lparr>path = ''/project/foo'', content_length = None, rfile = [], rfile_eof = False\<rparr>),
         (DELETE, \<lparr>path = ''/project/hydra'', content_length = None, rfile = [],
                   rfile_eof = False\<rparr>)]) \<and>
   map fst
     (run example_lib projects_storage
        [(POST, \<lparr>path = ''/project/foo'', content_length = None, rfile = [], rfile_eof = False\<rparr>),
         (DELETE, \<lparr>path = ''/project/hydra'', content_length = None, rfile = [],
                   rfile_eof = False\<rparr>)])
     = [''nixpkgs'', ''foo''] \<and>
   CHR ''/'' \<notin> set ''bar'' \<and>
   fst (do_POST example_lib
     (run example_lib projects_storage
        [(POST, \<lparr>path = ''/project/foo'', content_length = None, rfile = [], rfile_eof = False\<rparr>),
         (DELETE, \<lparr>path = ''/project/hydra'', content_length = None, rfile = [],
                   rfile_eof = False\<rparr>)])
     \<lparr>path = ''/project/bar'', content_length = Some ''2'', rfile = ''{}'', rfile_eof = True\<rparr>)
     = Response (json_response 200 (project_record ''bar'' (jstr ''Bar'') (JBool True))) \<and>
   status (json_response 200 (project_record ''bar'' (jstr ''Bar'') (JBool True))) = 200 \<and>
   body_field (json_response 200 (project_record ''bar'' (jstr ''Bar'') (JBool True))) ''name''
     = Some (jstr ''bar'')"
  using C9_names_match_keys [of example_lib
      "[(POST, \<lparr>path = ''/project/foo'', content_length = None, rfile = [], rfile_eof = False\<rparr>),
        (DELETE, \<lparr>path = ''/project/hydra'', content_length = None, rfile = [],
                  rfile_eof = False\<rparr>)]"
      "''bar''"
      "\<lparr>path = ''/project/bar'', content_length = Some ''2'', rfile = ''{}'', rfile_eof = True\<rparr>"
      "json_response 200 (project_record ''bar'' (jstr ''Bar'') (JBool True))"
      "[(''nixpkgs'', project_record ''nixpkgs'' (jstr ''Nixpkgs'') (JBool True)),
        (''foo'', project_record ''foo'' (jstr ''Foo'') (JBool True)),
        (''bar'', project_record ''bar'' (jstr ''Bar'') (JBool True))]"]
  unfolding run_example post_bar_example
  by (simp add: json_response_def)

subsection \<open>Project names stay unique\<close>

lemma distinct_keys_handle:
  assumes "distinct (map fst storage)"
  shows "distinct (map fst (snd (handle lib storage (m, req))))"
proof (cases m)
  case GET
  with assms show ?thesis by (simp add: do_GET_def)
next
  case POST
  obtain out storage' where p: "do_POST lib storage req = (out, storage')"
    by (cases "do_POST lib storage req")
  from do_POST_cases [OF p] assms have "distinct (map fst storage')"
    by (auto simp: distinct_update)
  with POST p show ?thesis by simp
next
  case PUT
  with assms show ?thesis by (simp add: do_PUT_def)
next
  case DELETE
  with assms show ?thesis by (simp add: do_DELETE_def Let_def distinct_delete)
qed

lemma distinct_keys_run:
  "distinct (map fst storage) \<Longrightarrow> distinct (map fst (run lib storage reqs))"
  unfolding run_def
proof (induction reqs arbitrary: storage)
  case Nil
  then show ?case by simp
next
  case (Cons mr reqs)
  obtain m req where "mr = (m, req)" by (cases mr)
  with Cons.prems have "distinct (map fst (snd (handle lib storage mr)))"
    by (simp add: distinct_keys_handle)
  from Cons.IH [OF this] show ?case by simp
qed

lemma distinct_keys_seed: "distinct (map fst projects_storage)"
  by (simp add: projects_storage_def)

subsection \<open>What a request leaves unchanged\<close>

text \<open>
  C10. A \<open>POST\<close> and a \<open>DELETE\<close> of \<open>/project/{name}\<close> change at most the entry with the
  key \<open>{name}\<close>: every other key has the entry it had. A \<open>GET\<close> and a \<open>PUT\<close> leave the
  whole mapping as it was.
\<close>

theorem C10_frame:
  "((m = POST \<or> m = DELETE) \<and> CHR ''/'' \<notin> set name \<and> path req = ''/project/'' @ name
      \<and> k \<noteq> name
    \<longrightarrow> map_of (snd (handle lib storage (m, req))) k = map_of storage k) \<and>
   ((m = GET \<or> m = PUT) \<longrightarrow> snd (handle lib storage (m, req)) = storage)"
proof -
  have "map_of (snd (do_POST lib storage req)) k = map_of storage k"
    if n: "CHR ''/'' \<notin> set name" and p: "path req = ''/project/'' @ name" and k: "k \<noteq> name"
  proof -
    have seg: "last (py_split CHR ''/'' (path req)) = name"
      using last_segment_project [OF n] p by simp
    have sw: "startswith (path req) ''/project/''" using p by simp
    obtain out storage' where d: "do_POST lib storage req = (out, storage')"
      by (cases "do_POST lib storage req")
    from do_POST_project_cases [OF sw d] k show ?thesis
      unfolding d seg by (auto simp: update_conv')
  qed
  moreover have "map_of (snd (do_DELETE storage req)) k = map_of storage k"
    if n: "CHR ''/'' \<notin> set name" and p: "path req = ''/project/'' @ name" and k: "k \<noteq> name"
    unfolding do_DELETE_project [OF n p] using k by simp
  ultimately show ?thesis
    by (auto simp: do_GET_def do_PUT_def)
qed

theorem C10_frame_witness:
  "CHR ''/'' \<notin> set ''foo'' \<and> ''hydra'' \<noteq> ''foo'' \<and>
   map_of (snd (handle example_lib projects_storage
      (POST, \<lparr>path = ''/project/foo'', content_length = None, rfile = [], rfile_eof = False\<rparr>)))
      ''hydra'' = map_of projects_storage ''hydra'' \<and>
   CHR ''/'' \<notin> set ''hydra'' \<and> ''nixpkgs'' \<noteq> ''hydra'' \<and>
   map_of (snd (handle example_lib projects_storage
      (DELETE, \<lparr>path = ''/project/hydra'', content_length = None, rfile = [], rfile_eof = False\<rparr>)))
      ''nixpkgs'' = map_of projects_storage ''nixpkgs'' \<and>
   snd (handle example_lib projects_storage
      (GET, \<lparr>path = ''/project/hydra'', content_length = None, rfile = [], rfile_eof = False\<rparr>))
     = projects_storage \<and>
   snd (handle example_lib projects_storage
      (PUT, \<lparr>path = ''/project/hydra'', content_length = Some ''2'', rfile = ''{}'',
             rfile_eof = False\<rparr>))
     = projects_storage"
  using C10_frame [of POST "''foo''"
          "\<lparr>path = ''/project/foo'', content_length = None, rfile = [], rfile_eof = False\<rparr>"
          "''hydra''" example_lib projects_storage]
        C10_frame [of DELETE "''hydra''"
          "\<lparr>path = ''/project/hydra'', content_length = None, rfile = [], rfile_eof = False\<rparr>"
          "''nixpkgs''" example_lib projects_storage]
        C10_frame [of GET "''x''"
          "\<lparr>path = ''/project/hydra'', content_length = None, rfile = [], rfile_eof = False\<rparr>"
          "''y''" example_lib projects_storage]
        C10_frame [of PUT "''x''"
          "\<lparr>path = ''/project/hydra'', content_length = Some ''2'', rfile = ''{}'',
             rfile_eof = False\<rparr>"
          "''y''" example_lib projects_storage]
  by simp

end
